theory Spec2Isabelle
  imports Main
begin

section \<open>Python values, as far as the token helper handles them\<close>

text \<open>
  The values that \<^verbatim>\<open>json.load\<close> and \<^verbatim>\<open>response.json()\<close> produce, and that the helper keeps
  in its attributes: \<^verbatim>\<open>None\<close>, booleans, integers, strings, lists and dictionaries. A
  dictionary is an association list in insertion order with distinct keys. Floating
  point numbers are left out.
\<close>

datatype json =
    JNull
  | JBool bool
  | JInt int
  | JStr string
  | JList "json list"
  | JObj "(string \<times> json) list"

text \<open>Python truthiness, as used by \<^verbatim>\<open>if x:\<close> and \<^verbatim>\<open>if not x:\<close>.\<close>

fun truthy :: "json \<Rightarrow> bool" where
  "truthy JNull = False"
| "truthy (JBool b) = b"
| "truthy (JInt n) = (n \<noteq> 0)"
| "truthy (JStr s) = (s \<noteq> [])"
| "truthy (JList xs) = (xs \<noteq> [])"
| "truthy (JObj kvs) = (kvs \<noteq> [])"

text \<open>\<^verbatim>\<open>d.get(key)\<close>: the value stored under the key, \<^verbatim>\<open>None\<close> when there is none.\<close>

definition dict_get :: "(string \<times> json) list \<Rightarrow> string \<Rightarrow> json" where
  "dict_get kvs k = (case map_of kvs k of None \<Rightarrow> JNull | Some v \<Rightarrow> v)"

text \<open>\<^verbatim>\<open>d.get(key, default)\<close>.\<close>

definition dict_get_default :: "(string \<times> json) list \<Rightarrow> string \<Rightarrow> json \<Rightarrow> json" where
  "dict_get_default kvs k d = (case map_of kvs k of None \<Rightarrow> d | Some v \<Rightarrow> v)"

text \<open>
  A Python number: \<^verbatim>\<open>bool\<close> is a subclass of \<^verbatim>\<open>int\<close>. Arithmetic and ordering against an
  \<^verbatim>\<open>int\<close> raise \<^verbatim>\<open>TypeError\<close> on every other kind of value (\<open>None\<close> here).
\<close>

fun num_of :: "json \<Rightarrow> int option" where
  "num_of (JInt n) = Some n"
| "num_of (JBool b) = Some (if b then 1 else 0)"
| "num_of _ = None"

text \<open>\<^verbatim>\<open>x[:20]\<close>: strings and lists can be sliced, the other values raise \<^verbatim>\<open>TypeError\<close>.\<close>

fun slice20 :: "json \<Rightarrow> json option" where
  "slice20 (JStr s) = Some (JStr (take 20 s))"
| "slice20 (JList xs) = Some (JList (take 20 xs))"
| "slice20 _ = None"

text \<open>\<^verbatim>\<open>len(x)\<close>: defined on strings, lists and dictionaries.\<close>

fun py_len :: "json \<Rightarrow> nat option" where
  "py_len (JStr s) = Some (length s)"
| "py_len (JList xs) = Some (length xs)"
| "py_len (JObj kvs) = Some (length kvs)"
| "py_len _ = None"

text \<open>\<^verbatim>\<open>s.rstrip('/')\<close>.\<close>

definition rstrip_slash :: "string \<Rightarrow> string" where
  "rstrip_slash s = rev (dropWhile (\<lambda>c. c = CHR ''/'') (rev s))"

text \<open>
  \<^verbatim>\<open>s.strip()\<close>. A character stands for a code point below 256; those that
  \<^verbatim>\<open>str.isspace\<close> accepts are tab, line feed, vertical tab, form feed, carriage return, the
  four separators 28 to 31, the space, next line (133) and the no-break space (160).
\<close>

definition is_space :: "char \<Rightarrow> bool" where
  "is_space c = (of_char c \<in> {9::nat, 10, 11, 12, 13, 28, 29, 30, 31, 32, 133, 160})"

definition strip :: "string \<Rightarrow> string" where
  "strip s = rev (dropWhile is_space (rev (dropWhile is_space s)))"

text \<open>The reserved placeholder of the example token file.\<close>

definition placeholder :: string where
  "placeholder = ''your_refresh_token_here''"

section \<open>The world outside the helper\<close>

text \<open>
  The exceptions the script meets. \<open>RangeError\<close> stands for what \<^verbatim>\<open>datetime.fromtimestamp\<close>
  raises on an instant it cannot represent: \<^verbatim>\<open>ValueError\<close>, \<^verbatim>\<open>OverflowError\<close> or \<^verbatim>\<open>OSError\<close>,
  by how far out the value is.
\<close>

datatype py_exn =
    OSError | JSONDecodeError | AttributeError | TypeError | RangeError
  | EOFError | RequestException

text \<open>What the file at a path holds: text that parses to a JSON value, or anything else.\<close>

datatype file_content = Json json | Unparsable

text \<open>
  A request the helper issues: the POST to the authentication endpoint with its JSON
  payload, or the GET of the agents endpoint with the token of its bearer header.
\<close>

datatype request = Post string json | Get string json

text \<open>
  What \<^verbatim>\<open>requests.post\<close> / \<^verbatim>\<open>requests.get\<close> come back with: one of the exceptions of the
  library, or a response with its status code, its text and what \<^verbatim>\<open>response.json()\<close>
  gives (\<open>None\<close> when the body is not JSON and the call raises).
\<close>

datatype http_outcome =
    Timeout
  | ConnectionError
  | OtherRequestError
  | Response int string "json option"

text \<open>One constructor for each \<^verbatim>\<open>print\<close> (and each prompt of \<^verbatim>\<open>input\<close>) of the script.\<close>

datatype token_line = Token_placeholder | Token_set | Token_not_set

datatype access_line = Access_valid int | Access_expired | Access_not_set

datatype load_msg =
    Token_file_not_found string
  | No_refresh_token_found
  | Please_update_refresh_token
  | Loaded_refresh_token int
  | Older_than_6_months
  | No_timestamp_found
  | Error_loading_tokens py_exn

datatype save_msg =
    Tokens_saved_secure string
  | Tokens_saved_no_permissions string
  | Error_saving_tokens py_exn
  | Example_file_created string
  | Please_update_example
  | Error_creating_token_file py_exn

datatype auth_msg =
    No_refresh_token_available
  | Authenticating string
  | Authentication_successful
  | Access_token_prefix json
  | Expires_at int
  | Expires_in_one_hour
  | No_access_token_received
  | Request_timeout
  | Connection_error
  | Http_error
  | Http_status int
  | Http_response string
  | Authentication_error py_exn

datatype probe_msg =
    No_access_token_for_testing
  | Testing_connection string
  | Api_test_successful
  | Found_agents nat
  | Api_test_failed int
  | Hint_token_expired_or_invalid
  | Hint_insufficient_permissions
  | Api_test_error py_exn

datatype status_msg =
    Rule_line
  | Title_token_status
  | Refresh_token_line token_line
  | Access_token_line access_line
  | Base_url_line string
  | Token_file_line string

datatype ui_msg =
    Title_setup_wizard
  | Wizard_text string
  | Prompt string
  | Hint_create_example
  | Testing_integration
  | Testing_authentication

datatype msg =
    Load load_msg
  | Save save_msg
  | Auth auth_msg
  | Probe probe_msg
  | Status status_msg
  | Ui ui_msg

text \<open>
  The file system (one entry per path), the clock, the network, the console. The clock
  is \<^verbatim>\<open>time.time()\<close> sampled in whole milliseconds since the epoch and is read once per
  operation; \<open>iso_now\<close> is what \<^verbatim>\<open>datetime.now().isoformat()\<close> returns. \<open>readable\<close>,
  \<open>writable\<close> and \<open>chmodable\<close> say whether \<^verbatim>\<open>open(p, 'r')\<close>, \<^verbatim>\<open>open(p, 'w')\<close> with the
  following \<^verbatim>\<open>json.dump\<close>, and \<^verbatim>\<open>os.chmod(p, 0o600)\<close> go through. Where a write does not go
  through, \<open>opens_for_writing\<close> says whether it was \<^verbatim>\<open>open(p, 'w')\<close> that raised, or the
  open went through, creating or truncating the file, and the write into it raised.
  \<open>sent\<close> lists the requests issued so far, \<open>stdout\<close> what has been printed, \<open>stdin\<close> the
  lines that \<^verbatim>\<open>input\<close> has still to read.
\<close>

record world =
  files :: "string \<Rightarrow> file_content option"
  readable :: "string \<Rightarrow> bool"
  writable :: "string \<Rightarrow> bool"
  opens_for_writing :: "string \<Rightarrow> bool"
  chmodable :: "string \<Rightarrow> bool"
  owner_only :: "string set"
  now_ms :: nat
  iso_now :: string
  network :: "request \<Rightarrow> http_outcome"
  sent :: "request list"
  stdout :: "msg list"
  stdin :: "string list"

definition say :: "msg \<Rightarrow> world \<Rightarrow> world" where
  "say m w = w\<lparr>stdout := stdout w @ [m]\<rparr>"

text \<open>\<^verbatim>\<open>int(time.time())\<close>: the clock in whole seconds.\<close>

definition current_time :: "world \<Rightarrow> int" where
  "current_time w = int (now_ms w div 1000)"

text \<open>
  \<^verbatim>\<open>datetime.fromtimestamp\<close> accepts the years 1 to 9999 (taken in UTC) and raises
  outside; the argument is in seconds. It also looks one day back from its argument,
  for a repeated hour of local time, so that the first day of year 1 is refused too.
\<close>

definition min_timestamp :: int where
  "min_timestamp = - 62135596800"

definition max_timestamp :: int where
  "max_timestamp = 253402300799"

definition first_timestamp :: int where
  "first_timestamp = min_timestamp + 86400"

text \<open>
  \<^verbatim>\<open>datetime.fromtimestamp(stored_timestamp / 1000)\<close> on a value in milliseconds: the
  instant in milliseconds, or the exception raised (\<^verbatim>\<open>TypeError\<close> by the division on a
  value that is no number, a range error outside the instants accepted).
\<close>

definition fromtimestamp_ms :: "json \<Rightarrow> py_exn + int" where
  "fromtimestamp_ms v =
     (case num_of v of
        None \<Rightarrow> Inl TypeError
      | Some t \<Rightarrow>
          if first_timestamp * 1000 \<le> t \<and> t < (max_timestamp + 1) * 1000 then Inr t
          else Inl RangeError)"

text \<open>\<^verbatim>\<open>datetime.fromtimestamp(expire_at)\<close> on a value in seconds.\<close>

definition fromtimestamp :: "json \<Rightarrow> py_exn + int" where
  "fromtimestamp v =
     (case num_of v of
        None \<Rightarrow> Inl TypeError
      | Some t \<Rightarrow>
          if first_timestamp \<le> t \<and> t \<le> max_timestamp then Inr t else Inl RangeError)"

section \<open>PicusTokenHelper\<close>

record helper =
  base_url :: string
  token_file :: string
  refresh_token :: json
  access_token :: json
  token_expires_at :: json

text \<open>\<^verbatim>\<open>__init__\<close>\<close>

definition init :: "string \<Rightarrow> string \<Rightarrow> helper" where
  "init b f =
     \<lparr>base_url = rstrip_slash b, token_file = f,
      refresh_token = JNull, access_token = JNull, token_expires_at = JInt 0\<rparr>"

subsection \<open>load_tokens\<close>

text \<open>
  The age in whole days, \<^verbatim>\<open>(current_date - stored_date).days\<close>, and the two ways the
  branch for a stored timestamp ends. The code subtracts two local wall-clock times,
  the stored one obtained through a floating point division; the age here is the exact
  difference of the two instants, which can differ from the printed one by a day.
\<close>

definition age_days :: "world \<Rightarrow> int \<Rightarrow> int" where
  "age_days w t = (int (now_ms w) - t) div 86400000"

definition report_age :: "int \<Rightarrow> world \<Rightarrow> world" where
  "report_age d w =
     (let w1 = say (Load (Loaded_refresh_token d)) w
      in if d > 180 then say (Load Older_than_6_months) w1 else w1)"

definition load_tokens :: "helper \<Rightarrow> world \<Rightarrow> bool \<times> helper \<times> world" where
  "load_tokens h w =
     (case files w (token_file h) of
        None \<Rightarrow> (False, h, say (Load (Token_file_not_found (token_file h))) w)
      | Some c \<Rightarrow>
          if \<not> readable w (token_file h) then (False, h, say (Load (Error_loading_tokens OSError)) w)
          else (case c of
            Unparsable \<Rightarrow> (False, h, say (Load (Error_loading_tokens JSONDecodeError)) w)
          | Json (JObj token_data) \<Rightarrow>
              (let h1 = h\<lparr>refresh_token := dict_get token_data ''refresh_token''\<rparr>;
                   h2 = h1\<lparr>access_token := dict_get token_data ''access_token''\<rparr>;
                   stored_timestamp = dict_get token_data ''timestamp''
               in if \<not> truthy (refresh_token h2) then (False, h2, say (Load No_refresh_token_found) w)
                  else if refresh_token h2 = JStr placeholder
                    then (False, h2, say (Load Please_update_refresh_token) w)
                  else if truthy stored_timestamp then
                    (case fromtimestamp_ms stored_timestamp of
                       Inl e \<Rightarrow> (False, h2, say (Load (Error_loading_tokens e)) w)
                     | Inr t \<Rightarrow> (True, h2, report_age (age_days w t) w))
                  else (True, h2, say (Load No_timestamp_found) w))
          | Json _ \<Rightarrow> (False, h, say (Load (Error_loading_tokens AttributeError)) w)))"

subsection \<open>save_tokens\<close>

text \<open>The dictionary that \<^verbatim>\<open>save_tokens\<close> builds before it opens the file.\<close>

definition token_data_of :: "world \<Rightarrow> json \<Rightarrow> json \<Rightarrow> json \<Rightarrow> (string \<times> json) list" where
  "token_data_of w refresh access expires =
     [(''refresh_token'', refresh),
      (''timestamp'', JInt (int (now_ms w))),
      (''created_at'', JStr (iso_now w))]
     @ (if truthy access then [(''access_token'', access)] else [])
     @ (if truthy expires then [(''expires_at'', expires)] else [])"

text \<open>
  The function has no \<^verbatim>\<open>return\<close>: its value is \<^verbatim>\<open>None\<close> on every path, also when the
  write raised and the exception was printed. When \<^verbatim>\<open>open(p, 'w')\<close> raises, the file is as
  it was; when the open goes through and \<^verbatim>\<open>json.dump\<close> or the closing flush raises, the
  file is left empty or with a part of the text, which is no JSON.
\<close>

definition save_tokens :: "helper \<Rightarrow> json \<Rightarrow> json \<Rightarrow> json \<Rightarrow> world \<Rightarrow> json \<times> world" where
  "save_tokens h refresh access expires w =
     (let p = token_file h; token_data = token_data_of w refresh access expires
      in if writable w p then
           (let w1 = w\<lparr>files := (files w)(p \<mapsto> Json (JObj token_data))\<rparr>
            in if chmodable w1 p
               then (JNull, say (Save (Tokens_saved_secure p)) (w1\<lparr>owner_only := insert p (owner_only w1)\<rparr>))
               else (JNull, say (Save (Tokens_saved_no_permissions p)) w1))
         else if opens_for_writing w p then
           (JNull, say (Save (Error_saving_tokens OSError))
                     (w\<lparr>files := (files w)(p \<mapsto> Unparsable)\<rparr>))
         else (JNull, say (Save (Error_saving_tokens OSError)) w))"

subsection \<open>create_example_token_file\<close>

definition example_token_data :: "world \<Rightarrow> (string \<times> json) list" where
  "example_token_data w =
     [(''refresh_token'', JStr placeholder),
      (''timestamp'', JInt (int (now_ms w))),
      (''created_at'', JStr (iso_now w)),
      (''_instructions'', JList
         [JStr ''Replace your_refresh_token_here with your actual Picus refresh token'',
          JStr ''Get your token from Picus Security Console > API Settings'',
          JStr ''This file will be automatically updated with access tokens''])]"

definition create_example_token_file :: "helper \<Rightarrow> world \<Rightarrow> json \<times> world" where
  "create_example_token_file h w =
     (let p = token_file h
      in if writable w p then
           (JNull, say (Save Please_update_example) (say (Save (Example_file_created p))
              (w\<lparr>files := (files w)(p \<mapsto> Json (JObj (example_token_data w)))\<rparr>)))
         else if opens_for_writing w p then
           (JNull, say (Save (Error_creating_token_file OSError))
                     (w\<lparr>files := (files w)(p \<mapsto> Unparsable)\<rparr>))
         else (JNull, say (Save (Error_creating_token_file OSError)) w))"

subsection \<open>authenticate\<close>

text \<open>
  \<^verbatim>\<open>response.raise_for_status()\<close> raises \<^verbatim>\<open>HTTPError\<close> for the client and server error
  codes, 400 to 599, and for no other code.
\<close>

definition raises_for_status :: "int \<Rightarrow> bool" where
  "raises_for_status status_code = (400 \<le> status_code \<and> status_code < 600)"

text \<open>
  The body of the \<^verbatim>\<open>try\<close> from \<^verbatim>\<open>self.access_token = data.get("token")\<close> on, for a
  response whose JSON is a dictionary. Every exception raised here is caught by the
  last \<^verbatim>\<open>except Exception\<close> clause; the attributes assigned before it keep their new
  values.
\<close>

definition accept_response :: "helper \<Rightarrow> (string \<times> json) list \<Rightarrow> world \<Rightarrow> bool \<times> helper \<times> world" where
  "accept_response h data w =
     (let h1 = h\<lparr>access_token := dict_get data ''token''\<rparr>;
          expire_at = dict_get data ''expire_at''
      in if truthy (access_token h1) then
           (if truthy expire_at then
              (let h2 = h1\<lparr>token_expires_at := expire_at\<rparr>
               in case fromtimestamp expire_at of
                    Inl e \<Rightarrow> (False, h2, say (Auth (Authentication_error e)) w)
                  | Inr expire_time \<Rightarrow>
                      (let w1 = say (Auth Authentication_successful) w
                       in case slice20 (access_token h2) of
                            None \<Rightarrow> (False, h2, say (Auth (Authentication_error TypeError)) w1)
                          | Some prefix \<Rightarrow>
                              (let w2 = say (Auth (Access_token_prefix prefix)) w1;
                                   w3 = say (Auth (Expires_at expire_time)) w2
                               in (True, h2,
                                   snd (save_tokens h2 (refresh_token h2) (access_token h2)
                                          (token_expires_at h2) w3)))))
            else
              (let h2 = h1\<lparr>token_expires_at := JInt (current_time w + 3600)\<rparr>;
                   w1 = say (Auth Authentication_successful) w
               in case slice20 (access_token h2) of
                    None \<Rightarrow> (False, h2, say (Auth (Authentication_error TypeError)) w1)
                  | Some prefix \<Rightarrow>
                      (let w2 = say (Auth (Access_token_prefix prefix)) w1;
                           w3 = say (Auth Expires_in_one_hour) w2
                       in (True, h2,
                           snd (save_tokens h2 (refresh_token h2) (access_token h2)
                                  (token_expires_at h2) w3)))))
         else (False, h1, say (Auth No_access_token_received) w))"

definition auth_url :: "helper \<Rightarrow> string" where
  "auth_url h = base_url h @ ''/v1/auth/token''"

definition auth_request :: "helper \<Rightarrow> request" where
  "auth_request h = Post (auth_url h) (JObj [(''refresh_token'', refresh_token h)])"

definition authenticate :: "helper \<Rightarrow> world \<Rightarrow> bool \<times> helper \<times> world" where
  "authenticate h w =
     (if \<not> truthy (refresh_token h) then (False, h, say (Auth No_refresh_token_available) w)
      else
        (let w1 = say (Auth (Authenticating (auth_url h))) w;
             w2 = w1\<lparr>sent := sent w1 @ [auth_request h]\<rparr>
         in case network w (auth_request h) of
              Timeout \<Rightarrow> (False, h, say (Auth Request_timeout) w2)
            | ConnectionError \<Rightarrow> (False, h, say (Auth Connection_error) w2)
            | OtherRequestError \<Rightarrow>
                (False, h, say (Auth (Authentication_error RequestException)) w2)
            | Response status_code text body \<Rightarrow>
                if raises_for_status status_code then
                  (False, h,
                   say (Auth (Http_response text))
                     (say (Auth (Http_status status_code)) (say (Auth Http_error) w2)))
                else (case body of
                    None \<Rightarrow> (False, h, say (Auth (Authentication_error JSONDecodeError)) w2)
                  | Some (JObj data) \<Rightarrow> accept_response h data w2
                  | Some _ \<Rightarrow> (False, h, say (Auth (Authentication_error AttributeError)) w2))))"

subsection \<open>test_api_connection\<close>

definition test_url :: "helper \<Rightarrow> string" where
  "test_url h = base_url h @ ''/v1/agents''"

definition test_request :: "helper \<Rightarrow> request" where
  "test_request h = Get (test_url h) (access_token h)"

definition test_api_connection :: "helper \<Rightarrow> world \<Rightarrow> bool \<times> world" where
  "test_api_connection h w =
     (if \<not> truthy (access_token h) then (False, say (Probe No_access_token_for_testing) w)
      else
        (let w1 = say (Probe (Testing_connection (test_url h))) w;
             w2 = w1\<lparr>sent := sent w1 @ [test_request h]\<rparr>
         in case network w (test_request h) of
              Response status_code text body \<Rightarrow>
                if raises_for_status status_code then
                  (let w3 = say (Probe (Api_test_failed status_code)) w2
                   in (False,
                       if status_code = 401 then say (Probe Hint_token_expired_or_invalid) w3
                       else if status_code = 403 then say (Probe Hint_insufficient_permissions) w3
                       else w3))
                else (case body of
                    None \<Rightarrow> (False, say (Probe (Api_test_error JSONDecodeError)) w2)
                  | Some (JObj data) \<Rightarrow>
                      (case py_len (dict_get_default data ''data'' (JList [])) of
                         None \<Rightarrow> (False, say (Probe (Api_test_error TypeError)) w2)
                       | Some agent_count \<Rightarrow>
                           (True, say (Probe (Found_agents agent_count))
                                    (say (Probe Api_test_successful) w2)))
                  | Some _ \<Rightarrow> (False, say (Probe (Api_test_error AttributeError)) w2))
            | _ \<Rightarrow> (False, say (Probe (Api_test_error RequestException)) w2)))"

subsection \<open>get_token_status\<close>

definition refresh_status :: "helper \<Rightarrow> token_line" where
  "refresh_status h =
     (if truthy (refresh_token h)
      then (if refresh_token h = JStr placeholder then Token_placeholder else Token_set)
      else Token_not_set)"

text \<open>
  The line about the access token. The comparison \<^verbatim>\<open>self.token_expires_at > current_time\<close>
  raises \<^verbatim>\<open>TypeError\<close> when the attribute is no number; nothing catches it.
\<close>

definition access_status :: "helper \<Rightarrow> int \<Rightarrow> py_exn + access_line" where
  "access_status h now =
     (if truthy (access_token h) then
        (case num_of (token_expires_at h) of
           None \<Rightarrow> Inl TypeError
         | Some expires \<Rightarrow>
             if expires > now then Inr (Access_valid ((expires - now) div 60))
             else Inr Access_expired)
      else Inr Access_not_set)"

definition get_token_status :: "helper \<Rightarrow> world \<Rightarrow> py_exn option \<times> world" where
  "get_token_status h w =
     (let w1 = say (Status Rule_line) w;
          w2 = say (Status Title_token_status) w1;
          w3 = say (Status Rule_line) w2;
          w4 = say (Status (Refresh_token_line (refresh_status h))) w3
      in case access_status h (current_time w) of
           Inl e \<Rightarrow> (Some e, w4)
         | Inr line \<Rightarrow>
             (let w5 = say (Status (Access_token_line line)) w4;
                  w6 = say (Status (Base_url_line (base_url h))) w5
              in (None, say (Status (Token_file_line (token_file h))) w6)))"

subsection \<open>interactive_setup\<close>

text \<open>
  \<^verbatim>\<open>input(prompt)\<close> prints the prompt and reads one line; at the end of the input it
  raises \<^verbatim>\<open>EOFError\<close>, which nothing in the script catches.
\<close>

definition py_input :: "string \<Rightarrow> world \<Rightarrow> (py_exn + string) \<times> world" where
  "py_input prompt w =
     (let w1 = say (Ui (Prompt prompt)) w
      in case stdin w1 of
           [] \<Rightarrow> (Inl EOFError, w1)
         | l # ls \<Rightarrow> (Inr l, w1\<lparr>stdin := ls\<rparr>))"

definition say_all :: "string list \<Rightarrow> world \<Rightarrow> world" where
  "say_all ts w = fold (\<lambda>t. say (Ui (Wizard_text t))) ts w"

definition interactive_setup :: "helper \<Rightarrow> world \<Rightarrow> (py_exn + bool) \<times> helper \<times> world" where
  "interactive_setup h w =
     (let w1 = say (Status Rule_line) w;
          w2 = say (Ui Title_setup_wizard) w1;
          w3 = say (Status Rule_line) w2;
          w4 = say_all [''Step 1: Configuration'', ''Current base URL: '' @ base_url h] w3
      in case py_input ''Enter Picus API URL (press Enter to keep current): '' w4 of
           (Inl e, w5) \<Rightarrow> (Inl e, h, w5)
         | (Inr line1, w5) \<Rightarrow>
             (let new_url = strip line1;
                  h1 = (if new_url \<noteq> [] then h\<lparr>base_url := rstrip_slash new_url\<rparr> else h);
                  w6 = say_all
                    [''Step 2: Refresh Token'',
                     ''You need to get a refresh token from your Picus Security Console:'',
                     ''1. Log into your Picus Security Console'',
                     ''2. Go to API Settings or Admin > API Management'',
                     ''3. Generate or copy your refresh token''] w5
              in case py_input ''Enter your refresh token: '' w6 of
                   (Inl e, w7) \<Rightarrow> (Inl e, h1, w7)
                 | (Inr line2, w7) \<Rightarrow>
                     (let token = strip line2
                      in if token = [] then
                           (Inr False, h1, say_all [''No token provided, setup cancelled''] w7)
                         else
                           (let h2 = h1\<lparr>refresh_token := JStr token\<rparr>;
                                w8 = say_all [''Step 3: Test Authentication''] w7;
                                (authenticated, h3, w9) = authenticate h2 w8
                            in if authenticated then
                                 (let w10 = say_all [''Step 4: Test API Access''] w9;
                                      (tested, w11) = test_api_connection h3 w10
                                  in if tested then
                                       (Inr True, h3, say_all
                                          [''Setup completed successfully!'',
                                           ''Your ThreatFlow application should now be able to connect to Picus.'']
                                          w11)
                                     else
                                       (Inr True, h3, say_all
                                          [''Authentication worked but API test failed'',
                                           ''This might be due to permissions or network issues'']
                                          w11))
                               else
                                 (Inr False, h3, say_all
                                    [''Setup failed - please check your token and try again'']
                                    w9)))))"

subsection \<open>main\<close>

text \<open>The parsed command line; the helper is local to \<^verbatim>\<open>main\<close>.\<close>

record args =
  arg_base_url :: string
  arg_token_file :: string
  arg_setup :: bool
  arg_test :: bool
  arg_status :: bool
  arg_create_example :: bool

text \<open>\<^verbatim>\<open>if helper.authenticate(): helper.test_api_connection()\<close>\<close>

definition authenticate_and_test :: "helper \<Rightarrow> world \<Rightarrow> world" where
  "authenticate_and_test h w =
     (let (authenticated, h1, w1) = authenticate h w
      in if authenticated then snd (test_api_connection h1 w1) else w1)"

definition main :: "args \<Rightarrow> world \<Rightarrow> py_exn option \<times> world" where
  "main a w =
     (let helper = init (arg_base_url a) (arg_token_file a)
      in if arg_create_example a then (None, snd (create_example_token_file helper w))
         else if arg_setup a then
           (case interactive_setup helper w of
              (Inl e, _, w1) \<Rightarrow> (Some e, w1)
            | (Inr _, _, w1) \<Rightarrow> (None, w1))
         else
           (let (loaded, helper1, w1) = load_tokens helper w
            in if \<not> loaded then (None, say (Ui Hint_create_example) w1)
               else if arg_status a then get_token_status helper1 w1
               else if arg_test a then
                 (None, authenticate_and_test helper1 (say (Ui Testing_integration) w1))
               else
                 (case get_token_status helper1 w1 of
                    (Some e, w2) \<Rightarrow> (Some e, w2)
                  | (None, w2) \<Rightarrow>
                      if truthy (refresh_token helper1) \<and> refresh_token helper1 \<noteq> JStr placeholder
                      then (None, authenticate_and_test helper1 (say (Ui Testing_authentication) w2))
                      else (None, w2))))"

section \<open>Observations on a world, and the examples the properties are tried on\<close>

text \<open>
  The value that the record persisted at path \<open>p\<close> holds under key \<open>k\<close>; \<open>None\<close> when
  the path holds no JSON dictionary or the dictionary lacks the key.
\<close>

definition stored_field :: "world \<Rightarrow> string \<Rightarrow> string \<Rightarrow> json option" where
  "stored_field w p k =
     (case files w p of Some (Json (JObj d)) \<Rightarrow> map_of d k | _ \<Rightarrow> None)"

text \<open>
  An empty file system in which every access is granted, the clock at 1700000000
  seconds, an unreachable network.
\<close>

definition example_world :: world where
  "example_world =
     \<lparr>files = (\<lambda>p. None), readable = (\<lambda>p. True), writable = (\<lambda>p. True),
      opens_for_writing = (\<lambda>p. True), chmodable = (\<lambda>p. True), owner_only = {},
      now_ms = 1700000000000,
      iso_now = ''2023-11-14T22:13:20'', network = (\<lambda>r. ConnectionError),
      sent = [], stdout = [], stdin = []\<rparr>"

text \<open>The helper as \<^verbatim>\<open>main\<close> constructs it from the default arguments.\<close>

definition example_helper :: helper where
  "example_helper = init ''https://api.picussecurity.com'' ''picus-tokens.json''"

definition example_args :: args where
  "example_args =
     \<lparr>arg_base_url = ''https://api.picussecurity.com'', arg_token_file = ''picus-tokens.json'',
      arg_setup = False, arg_test = False, arg_status = False, arg_create_example = False\<rparr>"

text \<open>The helper once an operator's refresh token is in place.\<close>

definition configured_helper :: helper where
  "configured_helper = example_helper\<lparr>refresh_token := JStr ''rt123''\<rparr>"

text \<open>The record that a save of all three values leaves on disk.\<close>

definition full_record :: "(string \<times> json) list" where
  "full_record =
     [(''refresh_token'', JStr ''rt123''),
      (''timestamp'', JInt 1700000000000),
      (''created_at'', JStr ''2023-11-14T22:13:20''),
      (''access_token'', JStr ''AT1''),
      (''expires_at'', JInt 1700003600)]"

definition world_with :: "(string \<times> json) list \<Rightarrow> world" where
  "world_with d =
     example_world\<lparr>files := (files example_world)(''picus-tokens.json'' \<mapsto> Json (JObj d))\<rparr>"

text \<open>The example world with an authentication endpoint that answers every request alike.\<close>

definition world_answering :: "http_outcome \<Rightarrow> world" where
  "world_answering r = example_world\<lparr>network := (\<lambda>q. r)\<rparr>"

text \<open>A response of the authentication endpoint that carries a token and no expiry.\<close>

definition token_response :: http_outcome where
  "token_response = Response 200 ''{\"token\": \"AT1\"}'' (Some (JObj [(''token'', JStr ''AT1'')]))"

text \<open>A response with status 300 (Multiple Choices) whose body is JSON with a token.\<close>

definition redirect_response :: http_outcome where
  "redirect_response = Response 300 ''{\"token\": \"AT1\"}'' (Some (JObj [(''token'', JStr ''AT1'')]))"

text \<open>The example world with a token file that cannot be opened for writing.\<close>

definition unwritable_world :: world where
  "unwritable_world =
     example_world\<lparr>writable := (\<lambda>p. False), opens_for_writing := (\<lambda>p. False)\<rparr>"

text \<open>
  A world that holds the full record in a file that opens for writing, on a disk that
  takes no more data.
\<close>

definition full_disk_world :: world where
  "full_disk_world = (world_with full_record)\<lparr>writable := (\<lambda>p. False)\<rparr>"

text \<open>The world in which the authentication endpoint gives another answer to the helper.\<close>

definition answer_with :: "world \<Rightarrow> helper \<Rightarrow> http_outcome \<Rightarrow> world" where
  "answer_with w h r = w\<lparr>network := (network w)(auth_request h := r)\<rparr>"

section \<open>Basic facts\<close>

lemma example_helper_simps:
  "base_url example_helper = ''https://api.picussecurity.com''"
  "token_file example_helper = ''picus-tokens.json''"
  "refresh_token example_helper = JNull"
  "access_token example_helper = JNull"
  "token_expires_at example_helper = JInt 0"
  by (simp_all add: example_helper_def init_def rstrip_slash_def)

lemma configured_helper_simps:
  "base_url configured_helper = ''https://api.picussecurity.com''"
  "token_file configured_helper = ''picus-tokens.json''"
  "refresh_token configured_helper = JStr ''rt123''"
  "access_token configured_helper = JNull"
  "token_expires_at configured_helper = JInt 0"
  by (simp_all add: configured_helper_def example_helper_simps)

lemma say_simps:
  "stdout (say m w) = stdout w @ [m]"
  "files (say m w) = files w"
  "sent (say m w) = sent w"
  "readable (say m w) = readable w"
  "writable (say m w) = writable w"
  "opens_for_writing (say m w) = opens_for_writing w"
  "chmodable (say m w) = chmodable w"
  "owner_only (say m w) = owner_only w"
  "now_ms (say m w) = now_ms w"
  "iso_now (say m w) = iso_now w"
  "network (say m w) = network w"
  "stdin (say m w) = stdin w"
  by (simp_all add: say_def)

lemma current_time_say: "current_time (say m w) = current_time w"
  by (simp add: current_time_def say_def)

lemma current_time_nonneg: "0 \<le> current_time w"
  by (simp add: current_time_def)

lemma save_tokens_fst: "fst (save_tokens h r a e w) = JNull"
  by (simp add: save_tokens_def Let_def)

lemma save_tokens_files:
  "files (snd (save_tokens h r a e w)) =
     (if writable w (token_file h)
      then (files w)(token_file h \<mapsto> Json (JObj (token_data_of w r a e)))
      else if opens_for_writing w (token_file h)
      then (files w)(token_file h \<mapsto> Unparsable)
      else files w)"
  by (simp add: save_tokens_def Let_def say_def)

lemma save_tokens_stdout:
  "stdout (snd (save_tokens h r a e w)) = stdout w @
     [Save (if writable w (token_file h)
            then (if chmodable w (token_file h) then Tokens_saved_secure (token_file h)
                  else Tokens_saved_no_permissions (token_file h))
            else Error_saving_tokens OSError)]"
  by (simp add: save_tokens_def Let_def say_def)

lemma save_tokens_frame:
  "sent (snd (save_tokens h r a e w)) = sent w"
  "readable (snd (save_tokens h r a e w)) = readable w"
  "writable (snd (save_tokens h r a e w)) = writable w"
  "opens_for_writing (snd (save_tokens h r a e w)) = opens_for_writing w"
  "now_ms (snd (save_tokens h r a e w)) = now_ms w"
  by (simp_all add: save_tokens_def Let_def say_def)

lemma map_of_token_data:
  "map_of (token_data_of w r a e) ''refresh_token'' = Some r"
  "map_of (token_data_of w r a e) ''timestamp'' = Some (JInt (int (now_ms w)))"
  "map_of (token_data_of w r a e) ''access_token'' = (if truthy a then Some a else None)"
  "map_of (token_data_of w r a e) ''expires_at'' = (if truthy e then Some e else None)"
  by (simp_all add: token_data_of_def)

text \<open>What the network would answer has no part in a save or in taking a response in.\<close>

lemma save_tokens_network:
  "save_tokens h r a e (w\<lparr>network := n\<rparr>)
     = (fst (save_tokens h r a e w), (snd (save_tokens h r a e w))\<lparr>network := n\<rparr>)"
  by (simp add: save_tokens_def token_data_of_def say_def Let_def)

lemma accept_response_network:
  "accept_response h data (w\<lparr>network := n\<rparr>)
     = (fst (accept_response h data w), fst (snd (accept_response h data w)),
        (snd (snd (accept_response h data w)))\<lparr>network := n\<rparr>)"
  by (simp add: accept_response_def save_tokens_def token_data_of_def current_time_def
        say_def Let_def split: sum.splits option.splits)

text \<open>
  A successful \<open>authenticate\<close> has saved a truthy access token together with a truthy
  expiry, provided the file could be written.
\<close>

lemma authenticate_saves_both:
  assumes "authenticate h w = (True, h', w')" and "writable w (token_file h)"
  shows "stored_field w' (token_file h) ''access_token'' = Some (access_token h')
     \<and> stored_field w' (token_file h) ''expires_at'' = Some (token_expires_at h')
     \<and> truthy (access_token h') \<and> truthy (token_expires_at h')"
proof -
  have ct: "current_time w + 3600 \<noteq> 0"
    by (simp add: current_time_def)
  have acc: "stored_field w1 (token_file h) ''access_token'' = Some (access_token h1)
     \<and> stored_field w1 (token_file h) ''expires_at'' = Some (token_expires_at h1)
     \<and> truthy (access_token h1) \<and> truthy (token_expires_at h1)"
    if "accept_response h data v = (True, h1, w1)" and "writable v (token_file h)"
       and "current_time v = current_time w" for data v h1 w1
    using that ct
    by (auto simp add: accept_response_def Let_def say_simps
         stored_field_def save_tokens_files map_of_token_data
         split: if_splits sum.splits option.splits)
  show ?thesis
    using assms
    by (auto simp add: authenticate_def Let_def say_simps current_time_def
          split: if_splits http_outcome.splits option.splits json.splits
          intro!: acc [THEN conjunct1] dest!: acc)
qed

text \<open>
  A record whose refresh token is falsy (missing, \<open>null\<close>, empty) or the placeholder makes
  \<open>load_tokens\<close> return \<open>False\<close> after one diagnostic line, whatever else the file and
  the world hold.
\<close>

lemma load_tokens_bad_refresh:
  assumes "files w (token_file h) = Some (Json (JObj token_data))"
    and "\<not> truthy (dict_get token_data ''refresh_token'')
         \<or> dict_get token_data ''refresh_token'' = JStr placeholder"
  shows "\<exists>m h'. load_tokens h w = (False, h', say (Load m) w)"
  using assms by (auto simp add: load_tokens_def Let_def)

text \<open>
  What does survive a save followed by a load at the same path: the refresh token and
  the access token (a falsy access token is not written and loads as \<open>None\<close>). The
  expiry attribute is the one the helper had before.
\<close>

lemma save_then_load_tokens:
  assumes "writable w (token_file h)" and "readable w (token_file h)"
    and "truthy r" and "r \<noteq> JStr placeholder"
    and "int (now_ms w) < (max_timestamp + 1) * 1000"
  shows "fst (load_tokens h (snd (save_tokens h r a e w))) = True
     \<and> refresh_token (fst (snd (load_tokens h (snd (save_tokens h r a e w))))) = r
     \<and> access_token (fst (snd (load_tokens h (snd (save_tokens h r a e w)))))
         = (if truthy a then a else JNull)
     \<and> token_expires_at (fst (snd (load_tokens h (snd (save_tokens h r a e w)))))
         = token_expires_at h"
  using assms
  by (simp add: load_tokens_def save_tokens_files save_tokens_frame map_of_token_data
        dict_get_def fromtimestamp_ms_def first_timestamp_def min_timestamp_def Let_def)

section \<open>The claims\<close>

subsection \<open>Persistence\<close>

text \<open>
  C1. Saving a refresh token, an access token and an expiry, and then loading from the
  same path, should give back all three. On the code the expiry does not come back: the
  save of \<open>rt123\<close>, \<open>AT1\<close> and the expiry 1700003600 by a fresh helper writes all three
  to the file, the load that follows succeeds and restores the two tokens, and leaves
  the expiry attribute at the 0 of the constructor.
\<close>

theorem save_then_load_drops_expires_at:
  "fst (load_tokens example_helper
          (snd (save_tokens example_helper (JStr ''rt123'') (JStr ''AT1'') (JInt 1700003600)
                  example_world))) = True
   \<and> stored_field
        (snd (save_tokens example_helper (JStr ''rt123'') (JStr ''AT1'') (JInt 1700003600)
                example_world))
        ''picus-tokens.json'' ''expires_at'' = Some (JInt 1700003600)
   \<and> refresh_token (fst (snd (load_tokens example_helper
        (snd (save_tokens example_helper (JStr ''rt123'') (JStr ''AT1'') (JInt 1700003600)
                example_world))))) = JStr ''rt123''
   \<and> access_token (fst (snd (load_tokens example_helper
        (snd (save_tokens example_helper (JStr ''rt123'') (JStr ''AT1'') (JInt 1700003600)
                example_world))))) = JStr ''AT1''
   \<and> token_expires_at (fst (snd (load_tokens example_helper
        (snd (save_tokens example_helper (JStr ''rt123'') (JStr ''AT1'') (JInt 1700003600)
                example_world))))) = JInt 0
   \<and> JInt 0 \<noteq> JInt 1700003600"
  by (simp add: load_tokens_def stored_field_def save_tokens_files save_tokens_frame
        map_of_token_data example_helper_simps example_world_def dict_get_def placeholder_def
        fromtimestamp_ms_def first_timestamp_def min_timestamp_def max_timestamp_def Let_def)

text \<open>
  C2. A successful \<open>load_tokens\<close> leaves the expiry attribute as it was, which is the 0
  of the constructor on a fresh helper; its result depends on the file only through the
  keys \<open>refresh_token\<close>, \<open>access_token\<close> and \<open>timestamp\<close> (so not on \<open>expires_at\<close>); and
  the status printed right after a load by a fresh helper calls every stored access
  token expired.
\<close>

theorem load_tokens_leaves_expiry:
  assumes "load_tokens h w = (True, h', w')"
  shows "token_expires_at h' = token_expires_at h
     \<and> token_expires_at (init b f) = JInt 0
     \<and> (\<forall>d d'. files w (token_file h) = Some (Json (JObj d))
            \<and> dict_get d' ''refresh_token'' = dict_get d ''refresh_token''
            \<and> dict_get d' ''access_token'' = dict_get d ''access_token''
            \<and> dict_get d' ''timestamp'' = dict_get d ''timestamp''
          \<longrightarrow> load_tokens h (w\<lparr>files := (files w)(token_file h \<mapsto> Json (JObj d'))\<rparr>)
              = (True, h', w'\<lparr>files := (files w)(token_file h \<mapsto> Json (JObj d'))\<rparr>))
     \<and> (token_expires_at h = JInt 0 \<and> truthy (access_token h') \<longrightarrow>
          get_token_status h' w' =
            (None, w'\<lparr>stdout := stdout w' @
               [Status Rule_line, Status Title_token_status, Status Rule_line,
                Status (Refresh_token_line (refresh_status h')),
                Status (Access_token_line Access_expired),
                Status (Base_url_line (base_url h')),
                Status (Token_file_line (token_file h'))]\<rparr>))"
proof -
  have 1: "token_expires_at h' = token_expires_at h"
    using assms
    by (auto simp add: load_tokens_def Let_def
          split: option.splits file_content.splits json.splits if_splits sum.splits)
  have 2: "token_expires_at (init b f) = JInt 0"
    by (simp add: init_def)
  have 3: "load_tokens h (w\<lparr>files := (files w)(token_file h \<mapsto> Json (JObj d'))\<rparr>)
              = (True, h', w'\<lparr>files := (files w)(token_file h \<mapsto> Json (JObj d'))\<rparr>)"
    if "files w (token_file h) = Some (Json (JObj d))"
      and "dict_get d' ''refresh_token'' = dict_get d ''refresh_token''"
      and "dict_get d' ''access_token'' = dict_get d ''access_token''"
      and "dict_get d' ''timestamp'' = dict_get d ''timestamp''" for d d'
    using assms that
    by (auto simp add: load_tokens_def Let_def say_def report_age_def age_days_def
          split: if_splits sum.splits)
  have 4: "get_token_status h' w' =
            (None, w'\<lparr>stdout := stdout w' @
               [Status Rule_line, Status Title_token_status, Status Rule_line,
                Status (Refresh_token_line (refresh_status h')),
                Status (Access_token_line Access_expired),
                Status (Base_url_line (base_url h')),
                Status (Token_file_line (token_file h'))]\<rparr>)"
    if "token_expires_at h = JInt 0" and "truthy (access_token h')"
    using that 1
    by (simp add: get_token_status_def access_status_def say_def current_time_def)
  show ?thesis
    using 1 2 3 4 by blast
qed

theorem load_tokens_leaves_expiry_witness:
  "load_tokens example_helper (world_with full_record)
     = (True, example_helper\<lparr>refresh_token := JStr ''rt123'', access_token := JStr ''AT1''\<rparr>,
        say (Load (Loaded_refresh_token 0)) (world_with full_record))
   \<and> stored_field (world_with full_record) ''picus-tokens.json'' ''expires_at''
       = Some (JInt 1700003600)
   \<and> token_expires_at (example_helper\<lparr>refresh_token := JStr ''rt123'', access_token := JStr ''AT1''\<rparr>)
       = JInt 0
   \<and> fst (load_tokens example_helper
       ((world_with full_record)
          \<lparr>files := (files (world_with full_record))
             (''picus-tokens.json'' \<mapsto> Json (JObj (take 4 full_record)))\<rparr>)) = True
   \<and> Status (Access_token_line Access_expired)
       \<in> set (stdout (snd (get_token_status
            (example_helper\<lparr>refresh_token := JStr ''rt123'', access_token := JStr ''AT1''\<rparr>)
            (say (Load (Loaded_refresh_token 0)) (world_with full_record)))))"
proof -
  let ?h = "example_helper\<lparr>refresh_token := JStr ''rt123'', access_token := JStr ''AT1''\<rparr>"
  let ?w = "say (Load (Loaded_refresh_token 0)) (world_with full_record)"
  have L: "load_tokens example_helper (world_with full_record) = (True, ?h, ?w)"
    by (simp add: load_tokens_def world_with_def full_record_def example_world_def
          example_helper_simps dict_get_def placeholder_def fromtimestamp_ms_def
          first_timestamp_def min_timestamp_def max_timestamp_def age_days_def report_age_def
          Let_def)
  have S: "stored_field (world_with full_record) ''picus-tokens.json'' ''expires_at''
       = Some (JInt 1700003600)"
    by (simp add: stored_field_def world_with_def full_record_def)
  note T = load_tokens_leaves_expiry [OF L, of "''https://api.picussecurity.com''" "''picus-tokens.json''"]
  have F: "files (world_with full_record) (token_file example_helper) = Some (Json (JObj full_record))"
    by (simp add: world_with_def example_helper_simps)
  have D: "dict_get (take 4 full_record) ''refresh_token'' = dict_get full_record ''refresh_token''
      \<and> dict_get (take 4 full_record) ''access_token'' = dict_get full_record ''access_token''
      \<and> dict_get (take 4 full_record) ''timestamp'' = dict_get full_record ''timestamp''"
    by (simp add: full_record_def dict_get_def)
  from T F D have A: "load_tokens example_helper
       ((world_with full_record)
          \<lparr>files := (files (world_with full_record))
             (token_file example_helper \<mapsto> Json (JObj (take 4 full_record)))\<rparr>)
       = (True, ?h, ?w\<lparr>files := (files (world_with full_record))
             (token_file example_helper \<mapsto> Json (JObj (take 4 full_record)))\<rparr>)"
    by blast
  from T have E: "token_expires_at ?h = JInt 0"
    by (simp add: example_helper_simps)
  from T have G: "get_token_status ?h ?w =
            (None, ?w\<lparr>stdout := stdout ?w @
               [Status Rule_line, Status Title_token_status, Status Rule_line,
                Status (Refresh_token_line (refresh_status ?h)),
                Status (Access_token_line Access_expired),
                Status (Base_url_line (base_url ?h)),
                Status (Token_file_line (token_file ?h))]\<rparr>)"
    by (simp add: example_helper_simps)
  show ?thesis
    using L S E A G by (simp add: example_helper_simps)
qed

text \<open>
  C3. Every save should write \<open>access_token\<close> and \<open>expires_at\<close> together or not at all.
  The code tests the two arguments one by one: a save of an access token with no expiry
  writes the first key without the second.
\<close>

theorem save_tokens_access_token_alone:
  "stored_field
     (snd (save_tokens example_helper (JStr ''rt123'') (JStr ''AT1'') JNull example_world))
     ''picus-tokens.json'' ''access_token'' = Some (JStr ''AT1'')
   \<and> stored_field
     (snd (save_tokens example_helper (JStr ''rt123'') (JStr ''AT1'') JNull example_world))
     ''picus-tokens.json'' ''expires_at'' = None"
  by (simp add: stored_field_def save_tokens_files map_of_token_data example_helper_simps
        example_world_def)

text \<open>
  C3, as the code has it. A save that reaches the file writes \<open>access_token\<close> exactly
  when the access token argument is truthy and \<open>expires_at\<close> exactly when the expiry
  argument is truthy; the two keys are hence both present or both absent exactly when
  the two arguments agree in truthiness. They do in the save that a successful
  \<open>authenticate\<close> makes, which writes both.
\<close>

theorem save_tokens_writes_truthy_fields:
  assumes "writable w (token_file h)"
  shows "(stored_field (snd (save_tokens h r a e w)) (token_file h) ''access_token'' \<noteq> None)
           = truthy a
     \<and> (stored_field (snd (save_tokens h r a e w)) (token_file h) ''expires_at'' \<noteq> None)
           = truthy e
     \<and> ((stored_field (snd (save_tokens h r a e w)) (token_file h) ''access_token'' \<noteq> None)
           = (stored_field (snd (save_tokens h r a e w)) (token_file h) ''expires_at'' \<noteq> None))
         = (truthy a = truthy e)
     \<and> (\<forall>h' w'. authenticate h w = (True, h', w') \<longrightarrow>
           stored_field w' (token_file h) ''access_token'' \<noteq> None
         \<and> stored_field w' (token_file h) ''expires_at'' \<noteq> None)"
proof -
  have 1: "(stored_field (snd (save_tokens h r a e w)) (token_file h) ''access_token'' \<noteq> None)
           = truthy a"
    using assms by (simp add: stored_field_def save_tokens_files map_of_token_data)
  have 2: "(stored_field (snd (save_tokens h r a e w)) (token_file h) ''expires_at'' \<noteq> None)
           = truthy e"
    using assms by (simp add: stored_field_def save_tokens_files map_of_token_data)
  have 3: "stored_field w' (token_file h) ''access_token'' \<noteq> None
         \<and> stored_field w' (token_file h) ''expires_at'' \<noteq> None"
    if "authenticate h w = (True, h', w')" for h' w'
    using authenticate_saves_both [OF that assms] by simp
  show ?thesis
    using 1 2 3 by simp
qed

theorem save_tokens_writes_truthy_fields_witness:
  "writable (world_answering token_response) (token_file configured_helper)
   \<and> fst (authenticate configured_helper (world_answering token_response)) = True
   \<and> stored_field (snd (snd (authenticate configured_helper (world_answering token_response))))
        ''picus-tokens.json'' ''access_token'' \<noteq> None
   \<and> stored_field (snd (snd (authenticate configured_helper (world_answering token_response))))
        ''picus-tokens.json'' ''expires_at'' \<noteq> None
   \<and> stored_field
        (snd (save_tokens configured_helper (JStr ''rt123'') JNull JNull
               (world_answering token_response)))
        ''picus-tokens.json'' ''access_token'' = None
   \<and> stored_field
        (snd (save_tokens configured_helper (JStr ''rt123'') JNull JNull
               (world_answering token_response)))
        ''picus-tokens.json'' ''expires_at'' = None"
proof -
  let ?w = "world_answering token_response"
  have W: "writable ?w (token_file configured_helper)"
    by (simp add: world_answering_def example_world_def)
  have A: "fst (authenticate configured_helper ?w) = True"
    by (simp add: authenticate_def accept_response_def raises_for_status_def say_simps Let_def
          auth_request_def world_answering_def token_response_def example_world_def
          configured_helper_simps dict_get_def)
  obtain h' w' where E: "authenticate configured_helper ?w = (True, h', w')"
    using A by (cases "authenticate configured_helper ?w") auto
  note T = save_tokens_writes_truthy_fields [OF W, of "JStr ''rt123''" JNull JNull]
  from T have 1: "(stored_field (snd (save_tokens configured_helper (JStr ''rt123'') JNull JNull ?w))
       (token_file configured_helper) ''access_token'' \<noteq> None) = truthy JNull"
    by (rule conjunct1)
  from T have 2: "(stored_field (snd (save_tokens configured_helper (JStr ''rt123'') JNull JNull ?w))
       (token_file configured_helper) ''expires_at'' \<noteq> None) = truthy JNull"
    by blast
  from T E have 3: "stored_field w' (token_file configured_helper) ''access_token'' \<noteq> None
      \<and> stored_field w' (token_file configured_helper) ''expires_at'' \<noteq> None"
    by blast
  from E have 4: "snd (snd (authenticate configured_helper ?w)) = w'"
    by simp
  show ?thesis
    using W A 1 2 3 unfolding 4 by (simp add: configured_helper_simps)
qed

subsection \<open>Authentication\<close>

text \<open>
  C4. Every response outside 200 to 299 should make \<open>authenticate\<close> fail and persist
  nothing. The code rejects through \<^verbatim>\<open>raise_for_status\<close>, which leaves the codes below
  400 alone: a response with status 300 whose body carries a token is accepted, the
  token is taken into the helper and saved.
\<close>

theorem authenticate_accepts_status_300:
  "\<not> (200 \<le> (300::int) \<and> (300::int) < 300)
   \<and> fst (authenticate configured_helper (world_answering redirect_response)) = True
   \<and> access_token configured_helper = JNull
   \<and> access_token (fst (snd (authenticate configured_helper (world_answering redirect_response))))
        = JStr ''AT1''
   \<and> stored_field (snd (snd (authenticate configured_helper (world_answering redirect_response))))
        ''picus-tokens.json'' ''access_token'' = Some (JStr ''AT1'')"
  by (simp add: authenticate_def accept_response_def raises_for_status_def say_simps Let_def
        auth_request_def world_answering_def redirect_response_def example_world_def
        configured_helper_simps dict_get_def stored_field_def save_tokens_files
        map_of_token_data)

text \<open>
  C4, as the code has it. On every response with a status code from 400 to 599 (401
  among them) \<open>authenticate\<close> returns \<open>False\<close>, prints the HTTP error with the status
  code and the response text, leaves every attribute of the helper and every file as
  they were, and has issued the one request. A response with any other status code is
  handled like a successful one: the outcome, the helper, the files, the requests
  issued and the lines printed are those that the same text and body bring under a
  status code from 200 to 299.
\<close>

theorem authenticate_by_status_code:
  assumes "truthy (refresh_token h)"
    and "network w (auth_request h) = Response status_code text body"
  shows "(400 \<le> status_code \<and> status_code < 600 \<longrightarrow>
            fst (authenticate h w) = False
          \<and> fst (snd (authenticate h w)) = h
          \<and> files (snd (snd (authenticate h w))) = files w
          \<and> owner_only (snd (snd (authenticate h w))) = owner_only w
          \<and> sent (snd (snd (authenticate h w))) = sent w @ [auth_request h]
          \<and> stdout (snd (snd (authenticate h w))) = stdout w @
               [Auth (Authenticating (auth_url h)), Auth Http_error,
                Auth (Http_status status_code), Auth (Http_response text)])
     \<and> (\<not> (400 \<le> status_code \<and> status_code < 600) \<longrightarrow>
          (\<forall>ok. 200 \<le> ok \<and> ok < 300 \<longrightarrow>
             fst (authenticate h w) = fst (authenticate h (answer_with w h (Response ok text body)))
           \<and> fst (snd (authenticate h w))
               = fst (snd (authenticate h (answer_with w h (Response ok text body))))
           \<and> files (snd (snd (authenticate h w)))
               = files (snd (snd (authenticate h (answer_with w h (Response ok text body)))))
           \<and> owner_only (snd (snd (authenticate h w)))
               = owner_only (snd (snd (authenticate h (answer_with w h (Response ok text body)))))
           \<and> sent (snd (snd (authenticate h w)))
               = sent (snd (snd (authenticate h (answer_with w h (Response ok text body)))))
           \<and> stdout (snd (snd (authenticate h w)))
               = stdout (snd (snd (authenticate h (answer_with w h (Response ok text body)))))))"
proof -
  have rejected: "fst (authenticate h w) = False
          \<and> fst (snd (authenticate h w)) = h
          \<and> files (snd (snd (authenticate h w))) = files w
          \<and> owner_only (snd (snd (authenticate h w))) = owner_only w
          \<and> sent (snd (snd (authenticate h w))) = sent w @ [auth_request h]
          \<and> stdout (snd (snd (authenticate h w))) = stdout w @
               [Auth (Authenticating (auth_url h)), Auth Http_error,
                Auth (Http_status status_code), Auth (Http_response text)]"
    if "400 \<le> status_code \<and> status_code < 600"
    using assms that by (simp add: authenticate_def raises_for_status_def say_def Let_def)
  define w2 where
    "w2 = (say (Auth (Authenticating (auth_url h))) w)\<lparr>sent := sent w @ [auth_request h]\<rparr>"
  have accepted: "authenticate h (answer_with w h (Response ok text body))
       = (fst (authenticate h w), fst (snd (authenticate h w)),
          (snd (snd (authenticate h w)))
            \<lparr>network := (network w)(auth_request h := Response ok text body)\<rparr>)"
    if other: "\<not> (400 \<le> status_code \<and> status_code < 600)" and ok: "200 \<le> ok \<and> ok < 300" for ok
  proof -
    let ?n = "(network w)(auth_request h := Response ok text body)"
    have nr: "\<not> raises_for_status status_code"
      using other by (simp add: raises_for_status_def)
    have nr': "\<not> raises_for_status ok"
      using ok by (simp add: raises_for_status_def)
    have L: "authenticate h w =
       (case body of
          None \<Rightarrow> (False, h, say (Auth (Authentication_error JSONDecodeError)) w2)
        | Some (JObj data) \<Rightarrow> accept_response h data w2
        | Some _ \<Rightarrow> (False, h, say (Auth (Authentication_error AttributeError)) w2))"
      using assms nr
      by (simp add: authenticate_def say_simps Let_def w2_def
            split: option.splits json.splits)
    have W: "(say (Auth (Authenticating (auth_url h))) (answer_with w h r))
               \<lparr>sent := sent w @ [auth_request h]\<rparr>
             = w2\<lparr>network := (network w)(auth_request h := r)\<rparr>" for r
      by (simp add: w2_def say_def answer_with_def)
    have N: "network (answer_with w h (Response ok text body)) (auth_request h)
               = Response ok text body"
      by (simp add: answer_with_def)
    have S: "sent (answer_with w h r) = sent w" for r
      by (simp add: answer_with_def)
    have R: "authenticate h (answer_with w h (Response ok text body)) =
       (case body of
          None \<Rightarrow> (False, h, say (Auth (Authentication_error JSONDecodeError)) (w2\<lparr>network := ?n\<rparr>))
        | Some (JObj data) \<Rightarrow> accept_response h data (w2\<lparr>network := ?n\<rparr>)
        | Some _ \<Rightarrow> (False, h, say (Auth (Authentication_error AttributeError)) (w2\<lparr>network := ?n\<rparr>)))"
      using assms(1) nr' N
      by (simp add: authenticate_def say_simps S W Let_def
            split: option.splits json.splits)
    have Y: "say m (w2\<lparr>network := n\<rparr>) = (say m w2)\<lparr>network := n\<rparr>" for m n
      by (simp add: say_def)
    show ?thesis
      unfolding L R
      by (simp add: Y accept_response_network split: option.splits json.splits)
  qed
  have "fst (authenticate h w) = fst (authenticate h (answer_with w h (Response ok text body)))
           \<and> fst (snd (authenticate h w))
               = fst (snd (authenticate h (answer_with w h (Response ok text body))))
           \<and> files (snd (snd (authenticate h w)))
               = files (snd (snd (authenticate h (answer_with w h (Response ok text body)))))
           \<and> owner_only (snd (snd (authenticate h w)))
               = owner_only (snd (snd (authenticate h (answer_with w h (Response ok text body)))))
           \<and> sent (snd (snd (authenticate h w)))
               = sent (snd (snd (authenticate h (answer_with w h (Response ok text body)))))
           \<and> stdout (snd (snd (authenticate h w)))
               = stdout (snd (snd (authenticate h (answer_with w h (Response ok text body)))))"
    if "\<not> (400 \<le> status_code \<and> status_code < 600)" and "200 \<le> ok \<and> ok < 300" for ok
    unfolding accepted [OF that] by simp
  with rejected show ?thesis
    by blast
qed

theorem authenticate_by_status_code_witness:
  "truthy (refresh_token configured_helper)
   \<and> network (world_answering (Response 401 ''Unauthorized'' None)) (auth_request configured_helper)
       = Response 401 ''Unauthorized'' None
   \<and> (400::int) \<le> 401 \<and> (401::int) < 600
   \<and> fst (authenticate configured_helper (world_answering (Response 401 ''Unauthorized'' None)))
       = False
   \<and> fst (snd (authenticate configured_helper (world_answering (Response 401 ''Unauthorized'' None))))
       = configured_helper
   \<and> files (snd (snd (authenticate configured_helper
        (world_answering (Response 401 ''Unauthorized'' None))))) ''picus-tokens.json'' = None
   \<and> stdout (snd (snd (authenticate configured_helper
        (world_answering (Response 401 ''Unauthorized'' None))))) =
          [Auth (Authenticating ''https://api.picussecurity.com/v1/auth/token''), Auth Http_error,
           Auth (Http_status 401), Auth (Http_response ''Unauthorized'')]
   \<and> network (world_answering (Response 600 ''no token'' (Some (JObj []))))
        (auth_request configured_helper) = Response 600 ''no token'' (Some (JObj []))
   \<and> \<not> ((400::int) \<le> 600 \<and> (600::int) < 600)
   \<and> (200::int) \<le> 200 \<and> (200::int) < 300
   \<and> fst (authenticate configured_helper
        (world_answering (Response 600 ''no token'' (Some (JObj [])))))
       = fst (authenticate configured_helper
           (answer_with (world_answering (Response 600 ''no token'' (Some (JObj []))))
              configured_helper (Response 200 ''no token'' (Some (JObj [])))))
   \<and> stdout (snd (snd (authenticate configured_helper
        (world_answering (Response 600 ''no token'' (Some (JObj [])))))))
       = stdout (snd (snd (authenticate configured_helper
           (answer_with (world_answering (Response 600 ''no token'' (Some (JObj []))))
              configured_helper (Response 200 ''no token'' (Some (JObj [])))))))"
proof -
  let ?w = "world_answering (Response 401 ''Unauthorized'' None)"
  let ?v = "world_answering (Response 600 ''no token'' (Some (JObj [])))"
  have 1: "truthy (refresh_token configured_helper)"
    by (simp add: configured_helper_simps)
  have 2: "network ?w (auth_request configured_helper) = Response 401 ''Unauthorized'' None"
    by (simp add: world_answering_def)
  have 3: "(400::int) \<le> 401 \<and> (401::int) < 600"
    by simp
  have 4: "network ?v (auth_request configured_helper) = Response 600 ''no token'' (Some (JObj []))"
    by (simp add: world_answering_def)
  have 5: "\<not> ((400::int) \<le> 600 \<and> (600::int) < 600)" and 6: "(200::int) \<le> 200 \<and> (200::int) < 300"
    by simp_all
  note R = authenticate_by_status_code [OF 1 2, THEN conjunct1, rule_format, OF 3]
  note A = authenticate_by_status_code [OF 1 4, THEN conjunct2, rule_format, OF 5 6]
  have E: "files ?w ''picus-tokens.json'' = None" "stdout ?w = []"
    by (simp_all add: world_answering_def example_world_def)
  from R E have R': "fst (authenticate configured_helper ?w) = False
     \<and> fst (snd (authenticate configured_helper ?w)) = configured_helper
     \<and> files (snd (snd (authenticate configured_helper ?w))) ''picus-tokens.json'' = None
     \<and> stdout (snd (snd (authenticate configured_helper ?w))) =
          [Auth (Authenticating ''https://api.picussecurity.com/v1/auth/token''), Auth Http_error,
           Auth (Http_status 401), Auth (Http_response ''Unauthorized'')]"
    by (simp add: auth_url_def configured_helper_simps)
  from A have A': "fst (authenticate configured_helper ?v)
       = fst (authenticate configured_helper
           (answer_with ?v configured_helper (Response 200 ''no token'' (Some (JObj [])))))
     \<and> stdout (snd (snd (authenticate configured_helper ?v)))
       = stdout (snd (snd (authenticate configured_helper
           (answer_with ?v configured_helper (Response 200 ''no token'' (Some (JObj [])))))))"
    by blast
  from 1 2 4 R' A' show ?thesis
    by simp
qed

text \<open>
  C5. When a successful response carries an access token and no \<open>expire_at\<close>,
  \<open>authenticate\<close> sets the expiry to the clock in whole seconds plus 3600, which lies
  between the clock plus 3599 and the clock plus 3601 seconds; it returns \<open>True\<close>, keeps
  the token, and saves that expiry when the file can be written.
\<close>

theorem authenticate_default_expiry:
  assumes "truthy (refresh_token h)"
    and "network w (auth_request h) = Response status_code text (Some (JObj data))"
    and "200 \<le> status_code" and "status_code < 300"
    and "dict_get data ''token'' = JStr token" and "token \<noteq> []"
    and "map_of data ''expire_at'' = None"
  shows "fst (authenticate h w) = True
     \<and> token_expires_at (fst (snd (authenticate h w))) = JInt (current_time w + 3600)
     \<and> int (now_ms w) + 3599000 \<le> 1000 * (current_time w + 3600)
     \<and> 1000 * (current_time w + 3600) \<le> int (now_ms w) + 3601000
     \<and> access_token (fst (snd (authenticate h w))) = JStr token
     \<and> (writable w (token_file h) \<longrightarrow>
          stored_field (snd (snd (authenticate h w))) (token_file h) ''expires_at''
            = Some (JInt (current_time w + 3600)))"
proof -
  have ct: "current_time w + 3600 \<noteq> 0"
    by (simp add: current_time_def)
  have r: "\<not> raises_for_status status_code"
    using assms by (simp add: raises_for_status_def)
  have e: "dict_get data ''expire_at'' = JNull"
    using assms by (simp add: dict_get_def)
  have a: "authenticate h w =
     accept_response h data
       ((say (Auth (Authenticating (auth_url h))) w)\<lparr>sent := sent w @ [auth_request h]\<rparr>)"
    using assms r by (simp add: authenticate_def Let_def say_simps)
  have b1: "int (now_ms w) + 3599000 \<le> 1000 * (current_time w + 3600)"
    unfolding current_time_def by (simp add: zdiv_int)
  have b2: "1000 * (current_time w + 3600) \<le> int (now_ms w) + 3601000"
    unfolding current_time_def by (simp add: zdiv_int)
  show ?thesis
    using assms ct e b1 b2 unfolding a
    by (simp add: accept_response_def Let_def say_simps current_time_say current_time_def
         stored_field_def save_tokens_files save_tokens_frame map_of_token_data)
qed

theorem authenticate_default_expiry_witness:
  "truthy (refresh_token configured_helper)
   \<and> network (world_answering token_response) (auth_request configured_helper)
       = Response 200 ''{\"token\": \"AT1\"}'' (Some (JObj [(''token'', JStr ''AT1'')]))
   \<and> writable (world_answering token_response) (token_file configured_helper)
   \<and> fst (authenticate configured_helper (world_answering token_response)) = True
   \<and> token_expires_at (fst (snd (authenticate configured_helper (world_answering token_response))))
       = JInt 1700003600
   \<and> stored_field (snd (snd (authenticate configured_helper (world_answering token_response))))
        ''picus-tokens.json'' ''expires_at'' = Some (JInt 1700003600)"
proof -
  let ?w = "world_answering token_response"
  have 1: "truthy (refresh_token configured_helper)"
    by (simp add: configured_helper_simps)
  have 2: "network ?w (auth_request configured_helper)
       = Response 200 ''{\"token\": \"AT1\"}'' (Some (JObj [(''token'', JStr ''AT1'')]))"
    by (simp add: world_answering_def token_response_def)
  have 3: "(200::int) \<le> 200" and 4: "(200::int) < 300"
    by simp_all
  have 5: "dict_get [(''token'', JStr ''AT1'')] ''token'' = JStr ''AT1''" and 6: "''AT1'' \<noteq> []"
    and 7: "map_of [(''token'', JStr ''AT1'')] ''expire_at'' = None"
    by (simp_all add: dict_get_def)
  have W: "writable ?w (token_file configured_helper)"
    by (simp add: world_answering_def example_world_def)
  have C: "current_time ?w + 3600 = 1700003600"
    by (simp add: current_time_def world_answering_def example_world_def)
  from authenticate_default_expiry [OF 1 2 3 4 5 6 7] 1 2 W show ?thesis
    unfolding C by (simp add: configured_helper_simps)
qed

subsection \<open>Loading, probing and status\<close>

text \<open>
  C6. On a record whose refresh token is missing (or otherwise falsy) or is the
  placeholder, \<open>load_tokens\<close> returns \<open>False\<close>, and \<open>main\<close>, when it loads the record (so
  not under \<^verbatim>\<open>--create-example\<close> or \<^verbatim>\<open>--setup\<close>), stops after the hint: it prints the line of
  the failed load and the hint and nothing of \<open>authenticate\<close>, issues no request and
  writes no file.
\<close>

theorem unusable_record_never_authenticated:
  assumes "files w (token_file h) = Some (Json (JObj token_data))"
    and "\<not> truthy (dict_get token_data ''refresh_token'')
         \<or> dict_get token_data ''refresh_token'' = JStr placeholder"
    and "arg_token_file a = token_file h"
    and "\<not> arg_create_example a" and "\<not> arg_setup a"
  shows "fst (load_tokens h w) = False
     \<and> fst (main a w) = None
     \<and> sent (snd (main a w)) = sent w
     \<and> files (snd (main a w)) = files w
     \<and> (\<exists>m. stdout (snd (main a w)) = stdout w @ [Load m, Ui Hint_create_example])"
proof -
  from load_tokens_bad_refresh [OF assms(1,2)]
  have 1: "fst (load_tokens h w) = False"
    by auto
  have "files w (token_file (init (arg_base_url a) (arg_token_file a)))
          = Some (Json (JObj token_data))"
    using assms by (simp add: init_def)
  from load_tokens_bad_refresh [OF this assms(2)]
  obtain m h' where
    "load_tokens (init (arg_base_url a) (arg_token_file a)) w = (False, h', say (Load m) w)"
    by blast
  then have "main a w = (None, say (Ui Hint_create_example) (say (Load m) w))"
    using assms by (simp add: main_def Let_def)
  then show ?thesis
    using 1 by (simp add: say_simps)
qed

theorem unusable_record_never_authenticated_witness:
  "files (world_with (example_token_data example_world)) (token_file example_helper)
     = Some (Json (JObj (example_token_data example_world)))
   \<and> dict_get (example_token_data example_world) ''refresh_token'' = JStr placeholder
   \<and> arg_token_file example_args = token_file example_helper
   \<and> \<not> arg_create_example example_args \<and> \<not> arg_setup example_args
   \<and> fst (load_tokens example_helper (world_with (example_token_data example_world))) = False
   \<and> sent (snd (main example_args (world_with (example_token_data example_world)))) = []
   \<and> stdout (snd (main example_args (world_with (example_token_data example_world))))
       = [Load Please_update_refresh_token, Ui Hint_create_example]"
proof -
  let ?w = "world_with (example_token_data example_world)"
  have 1: "files ?w (token_file example_helper)
     = Some (Json (JObj (example_token_data example_world)))"
    by (simp add: world_with_def example_helper_simps)
  have 2: "dict_get (example_token_data example_world) ''refresh_token'' = JStr placeholder"
    by (simp add: example_token_data_def dict_get_def)
  then have B: "\<not> truthy (dict_get (example_token_data example_world) ''refresh_token'')
      \<or> dict_get (example_token_data example_world) ''refresh_token'' = JStr placeholder"
    by simp
  have 3: "arg_token_file example_args = token_file example_helper"
    by (simp add: example_args_def example_helper_simps)
  have 4: "\<not> arg_create_example example_args" and 5: "\<not> arg_setup example_args"
    by (simp_all add: example_args_def)
  have S: "stdout (snd (main example_args ?w))
       = [Load Please_update_refresh_token, Ui Hint_create_example]"
    by (simp add: main_def load_tokens_def init_def example_args_def world_with_def
          example_world_def example_token_data_def dict_get_def placeholder_def say_simps
          Let_def)
  have E: "sent ?w = []"
    by (simp add: world_with_def example_world_def)
  from unusable_record_never_authenticated [OF 1 B 3 4 5] 1 2 3 4 5 S E show ?thesis
    by simp
qed

text \<open>
  C7. Called with no access token set, \<open>test_api_connection\<close> returns \<open>False\<close> after
  the one line that says so, and issues no request.
\<close>

theorem test_api_connection_without_token:
  assumes "\<not> truthy (access_token h)"
  shows "test_api_connection h w = (False, say (Probe No_access_token_for_testing) w)
     \<and> sent (snd (test_api_connection h w)) = sent w
     \<and> stdout (snd (test_api_connection h w)) = stdout w @ [Probe No_access_token_for_testing]"
  using assms by (simp add: test_api_connection_def say_def)

theorem test_api_connection_without_token_witness:
  "\<not> truthy (access_token example_helper)
   \<and> fst (test_api_connection example_helper example_world) = False
   \<and> sent (snd (test_api_connection example_helper example_world)) = []
   \<and> stdout (snd (test_api_connection example_helper example_world))
       = [Probe No_access_token_for_testing]"
proof -
  have 1: "\<not> truthy (access_token example_helper)"
    by (simp add: example_helper_simps)
  have E: "sent example_world = []" "stdout example_world = []"
    by (simp_all add: example_world_def)
  from test_api_connection_without_token [OF 1, of example_world] 1 E show ?thesis
    by (simp add: say_simps)
qed

text \<open>
  C8. With an access token set and an integer expiry, the status is valid exactly when
  the clock (in whole seconds) is before the expiry, then with a positive number of
  remaining seconds, printed in whole minutes, and expired otherwise; with the expiry
  one second behind the clock it is expired, with the expiry one second ahead it is
  valid. \<open>get_token_status\<close> prints that line, at the clock of the world.
\<close>

theorem status_valid_iff_before_expiry:
  assumes "truthy (access_token h)" and "token_expires_at h = JInt expires_at"
  shows "access_status h now =
           Inr (if now < expires_at then Access_valid ((expires_at - now) div 60)
                else Access_expired)
     \<and> (now < expires_at \<longrightarrow> 0 \<le> expires_at - now \<and> 0 \<le> (expires_at - now) div 60)
     \<and> access_status (h\<lparr>token_expires_at := JInt (now - 1)\<rparr>) now = Inr Access_expired
     \<and> access_status (h\<lparr>token_expires_at := JInt (now + 1)\<rparr>) now = Inr (Access_valid 0)
     \<and> get_token_status h w =
         (None, w\<lparr>stdout := stdout w @
            [Status Rule_line, Status Title_token_status, Status Rule_line,
             Status (Refresh_token_line (refresh_status h)),
             Status (Access_token_line
               (if current_time w < expires_at
                then Access_valid ((expires_at - current_time w) div 60)
                else Access_expired)),
             Status (Base_url_line (base_url h)),
             Status (Token_file_line (token_file h))]\<rparr>)"
proof -
  have "0 \<le> (expires_at - now) div 60" if "now < expires_at"
    using that by (simp add: pos_imp_zdiv_nonneg_iff)
  then show ?thesis
    using assms by (simp add: get_token_status_def access_status_def say_def)
qed

theorem status_valid_iff_before_expiry_witness:
  "truthy (access_token (configured_helper\<lparr>access_token := JStr ''AT1'',
       token_expires_at := JInt 1700003600\<rparr>))
   \<and> access_status (configured_helper\<lparr>access_token := JStr ''AT1'',
       token_expires_at := JInt 1700003600\<rparr>) 1700000000 = Inr (Access_valid 60)
   \<and> access_status (configured_helper\<lparr>access_token := JStr ''AT1'',
       token_expires_at := JInt 1700003600\<rparr>) 1700003600 = Inr Access_expired
   \<and> (0::int) \<le> 1700003600 - 1700000000"
proof -
  let ?h = "configured_helper\<lparr>access_token := JStr ''AT1'', token_expires_at := JInt 1700003600\<rparr>"
  have 1: "truthy (access_token ?h)" and 2: "token_expires_at ?h = JInt 1700003600"
    by simp_all
  from status_valid_iff_before_expiry [OF 1 2, of 1700000000 example_world]
       status_valid_iff_before_expiry [OF 1 2, of 1700003600 example_world] 1
  show ?thesis
    by simp
qed

text \<open>
  C10. A record with a truthy refresh token other than the placeholder and without the
  \<open>timestamp\<close> key loads: \<open>load_tokens\<close> returns \<open>True\<close>, takes both tokens from the file
  and prints only that the age is unknown.
\<close>

theorem load_tokens_without_timestamp:
  assumes "files w (token_file h) = Some (Json (JObj token_data))"
    and "readable w (token_file h)"
    and "truthy (dict_get token_data ''refresh_token'')"
    and "dict_get token_data ''refresh_token'' \<noteq> JStr placeholder"
    and "map_of token_data ''timestamp'' = None"
  shows "load_tokens h w =
     (True,
      h\<lparr>refresh_token := dict_get token_data ''refresh_token'',
        access_token := dict_get token_data ''access_token''\<rparr>,
      say (Load No_timestamp_found) w)"
  using assms by (simp add: load_tokens_def dict_get_def)

theorem load_tokens_without_timestamp_witness:
  "files (world_with [(''refresh_token'', JStr ''rt123'')]) (token_file example_helper)
     = Some (Json (JObj [(''refresh_token'', JStr ''rt123'')]))
   \<and> readable (world_with [(''refresh_token'', JStr ''rt123'')]) (token_file example_helper)
   \<and> truthy (dict_get [(''refresh_token'', JStr ''rt123'')] ''refresh_token'')
   \<and> dict_get [(''refresh_token'', JStr ''rt123'')] ''refresh_token'' \<noteq> JStr placeholder
   \<and> map_of [(''refresh_token'', JStr ''rt123'')] ''timestamp'' = None
   \<and> fst (load_tokens example_helper (world_with [(''refresh_token'', JStr ''rt123'')])) = True
   \<and> refresh_token (fst (snd (load_tokens example_helper
        (world_with [(''refresh_token'', JStr ''rt123'')])))) = JStr ''rt123''
   \<and> stdout (snd (snd (load_tokens example_helper
        (world_with [(''refresh_token'', JStr ''rt123'')])))) = [Load No_timestamp_found]"
proof -
  let ?d = "[(''refresh_token'', JStr ''rt123'')]"
  have 1: "files (world_with ?d) (token_file example_helper) = Some (Json (JObj ?d))"
    by (simp add: world_with_def example_helper_simps)
  have 2: "readable (world_with ?d) (token_file example_helper)"
    by (simp add: world_with_def example_world_def)
  have 3: "truthy (dict_get ?d ''refresh_token'')"
    and 4: "dict_get ?d ''refresh_token'' \<noteq> JStr placeholder"
    and 5: "map_of ?d ''timestamp'' = None"
    by (simp_all add: dict_get_def placeholder_def)
  have E: "stdout (world_with ?d) = []"
    by (simp add: world_with_def example_world_def)
  from load_tokens_without_timestamp [OF 1 2 3 4 5] 1 2 3 4 5 E show ?thesis
    by (simp add: say_simps dict_get_def)
qed

subsection \<open>The result of a save\<close>

text \<open>
  C9. A failed write should give the caller of \<open>save_tokens\<close> a result distinct from
  that of a successful one. The function returns \<open>None\<close> either way: the result of a
  save that goes through equals that of a save to a file that cannot be opened, which
  writes nothing, and that of a save that fails after the open, which leaves no record
  in the file.
\<close>

theorem save_tokens_failure_returns_the_same:
  "fst (save_tokens example_helper (JStr ''rt123'') (JStr ''AT1'') (JInt 1700003600)
          example_world) = JNull
   \<and> files (snd (save_tokens example_helper (JStr ''rt123'') (JStr ''AT1'') (JInt 1700003600)
          example_world)) ''picus-tokens.json'' \<noteq> None
   \<and> fst (save_tokens example_helper (JStr ''rt123'') (JStr ''AT1'') (JInt 1700003600)
          unwritable_world) = JNull
   \<and> files (snd (save_tokens example_helper (JStr ''rt123'') (JStr ''AT1'') (JInt 1700003600)
          unwritable_world)) ''picus-tokens.json'' = None
   \<and> fst (save_tokens example_helper (JStr ''rt123'') (JStr ''AT1'') (JInt 1700003600)
          full_disk_world) = JNull
   \<and> files full_disk_world ''picus-tokens.json'' = Some (Json (JObj full_record))
   \<and> files (snd (save_tokens example_helper (JStr ''rt123'') (JStr ''AT1'') (JInt 1700003600)
          full_disk_world)) ''picus-tokens.json'' = Some Unparsable"
  by (simp add: save_tokens_fst save_tokens_files example_helper_simps example_world_def
        unwritable_world_def full_disk_world_def world_with_def)

text \<open>
  C9, as the code has it. \<open>save_tokens\<close> returns \<open>None\<close> on every call, whether the
  write went through or failed. What tells a failed write from a successful one is
  the line printed (the error, or one of the two confirmations) and the file: it holds
  the new record after a successful write, is as it was when it could not be opened,
  and is left without a record when the write failed after the open.
\<close>

theorem save_tokens_returns_none:
  "fst (save_tokens h r a e w) = JNull
   \<and> stdout (snd (save_tokens h r a e w)) = stdout w @
       [Save (if writable w (token_file h)
              then (if chmodable w (token_file h) then Tokens_saved_secure (token_file h)
                    else Tokens_saved_no_permissions (token_file h))
              else Error_saving_tokens OSError)]
   \<and> files (snd (save_tokens h r a e w)) =
       (if writable w (token_file h)
        then (files w)(token_file h \<mapsto> Json (JObj (token_data_of w r a e)))
        else if opens_for_writing w (token_file h)
        then (files w)(token_file h \<mapsto> Unparsable)
        else files w)"
  by (simp add: save_tokens_fst save_tokens_files save_tokens_stdout)

end
